theory Spec2Isabelle
  imports Complex_Main
begin

section \<open>Python values\<close>

text \<open>
  A Python \<open>str\<close> is a sequence of Unicode code points; \<open>asc\<close> embeds an ASCII
  literal.  The exceptions the modelled code can raise are values of \<open>error\<close>, and a
  computation that may raise returns \<open>error + 'a\<close>.
\<close>

type_synonym ustring = "nat list"

definition asc :: "string \<Rightarrow> ustring" where
  "asc s = map of_char s"

datatype error =
  AttributeError | TypeError | OverflowError | ZeroDivisionError | ValueError | KeyError

definition bind :: "error + 'a \<Rightarrow> ('a \<Rightarrow> error + 'b) \<Rightarrow> error + 'b" where
  "bind m f = (case m of Inl e \<Rightarrow> Inl e | Inr x \<Rightarrow> f x)"

subsection \<open>Floats\<close>

text \<open>
  A Python \<open>float\<close> is an IEEE 754 binary64 value.  \<open>Finite s m e\<close> is the finite
  value \<open>(-1)\<^sup>s * m * 2\<^sup>e\<close>; every operation returns it with \<open>m\<close> odd, or with
  \<open>m = 0\<close> and \<open>e = 0\<close>, so that equal values are equal terms.
  \<open>round_double n d\<close> is the double nearest to the fraction \<open>n / d\<close>, ties to even,
  and \<open>None\<close> when that exceeds the largest double.
\<close>

datatype pyfloat = Finite bool nat int | Infinity bool | NaN

fun float_val :: "pyfloat \<Rightarrow> rat option" where
  "float_val (Finite s m e) =
     Some ((if s then - 1 else 1) * of_nat m * (if 0 \<le> e then 2 ^ nat e else 1 / 2 ^ nat (- e)))"
| "float_val _ = None"

fun bitlength :: "nat \<Rightarrow> nat" where
  "bitlength n = (if n = 0 then 0 else Suc (bitlength (n div 2)))"

declare bitlength.simps [simp del]

fun dyadic :: "nat \<Rightarrow> int \<Rightarrow> nat \<times> int" where
  "dyadic m e = (if m = 0 then (0, 0) else if even m then dyadic (m div 2) (e + 1) else (m, e))"

declare dyadic.simps [simp del]

definition round_half_even :: "nat \<Rightarrow> nat \<Rightarrow> nat" where
  "round_half_even n d =
     (let f = n div d; r = n mod d
      in if 2 * r < d then f else if d < 2 * r then f + 1 else if even f then f else f + 1)"

definition ilog2 :: "nat \<Rightarrow> nat \<Rightarrow> int" where
  "ilog2 n d =
     (let k = int (bitlength n) - int (bitlength d)
      in if (if 0 \<le> k then d * 2 ^ nat k \<le> n else d \<le> n * 2 ^ nat (- k)) then k else k - 1)"

definition round_double :: "nat \<Rightarrow> nat \<Rightarrow> (nat \<times> int) option" where
  "round_double n d =
     (if n = 0 then Some (0, 0)
      else let e = max (ilog2 n d - 52) (- 1074);
               m = (if 0 \<le> e then round_half_even n (d * 2 ^ nat e)
                    else round_half_even (n * 2 ^ nat (- e)) d)
           in if int (bitlength m) + e \<le> 1024 then Some (dyadic m e) else None)"

definition mk_float :: "bool \<Rightarrow> nat \<Rightarrow> nat \<Rightarrow> pyfloat" where
  "mk_float s n d = (case round_double n d of Some (m, e) \<Rightarrow> Finite s m e | None \<Rightarrow> Infinity s)"

definition float_of_int :: "int \<Rightarrow> error + pyfloat" where
  "float_of_int n =
     (case round_double (nat \<bar>n\<bar>) 1 of
        Some (m, e) \<Rightarrow> Inr (Finite (n < 0) m e)
      | None \<Rightarrow> Inl OverflowError)"

fun float_is_zero :: "pyfloat \<Rightarrow> bool" where
  "float_is_zero (Finite s m e) = (m = 0)"
| "float_is_zero _ = False"

fun float_gt0 :: "pyfloat \<Rightarrow> bool" where
  "float_gt0 (Finite s m e) = (\<not> s \<and> 0 < m)"
| "float_gt0 (Infinity s) = (\<not> s)"
| "float_gt0 NaN = False"


fun float_truediv :: "pyfloat \<Rightarrow> pyfloat \<Rightarrow> error + pyfloat" where
  "float_truediv a (Finite sb mb eb) =
     (if mb = 0 then Inl ZeroDivisionError
      else Inr (case a of
                  Finite sa ma ea \<Rightarrow>
                    (if eb \<le> ea then mk_float (sa \<noteq> sb) (ma * 2 ^ nat (ea - eb)) mb
                     else mk_float (sa \<noteq> sb) ma (mb * 2 ^ nat (eb - ea)))
                | Infinity sa \<Rightarrow> Infinity (sa \<noteq> sb)
                | NaN \<Rightarrow> NaN))"
| "float_truediv a (Infinity sb) =
     Inr (case a of Finite sa ma ea \<Rightarrow> Finite (sa \<noteq> sb) 0 0 | _ \<Rightarrow> NaN)"
| "float_truediv a NaN = Inr NaN"

fun float_mul :: "pyfloat \<Rightarrow> pyfloat \<Rightarrow> pyfloat" where
  "float_mul (Finite sa ma ea) (Finite sb mb eb) =
     (if 0 \<le> ea + eb then mk_float (sa \<noteq> sb) (ma * mb * 2 ^ nat (ea + eb)) 1
      else mk_float (sa \<noteq> sb) (ma * mb) (2 ^ nat (- (ea + eb))))"
| "float_mul (Finite sa ma ea) (Infinity sb) = (if ma = 0 then NaN else Infinity (sa \<noteq> sb))"
| "float_mul (Infinity sa) (Finite sb mb eb) = (if mb = 0 then NaN else Infinity (sa \<noteq> sb))"
| "float_mul (Infinity sa) (Infinity sb) = Infinity (sa \<noteq> sb)"
| "float_mul _ _ = NaN"

text \<open>
  \<open>hundredths m e\<close> is \<open>m * 2\<^sup>e * 100\<close> rounded to an integer, ties to even: the
  digits of the value at two decimals.
\<close>

definition hundredths :: "nat \<Rightarrow> int \<Rightarrow> nat" where
  "hundredths m e =
     (if 0 \<le> e then 100 * m * 2 ^ nat e else round_half_even (100 * m) (2 ^ nat (- e)))"

text \<open>
  \<open>round(x, 2)\<close> on a float: a NaN or an infinity is returned as it is; a finite value is
  rounded to two decimals and the decimal is converted back to a double.
\<close>

definition float_round2 :: "pyfloat \<Rightarrow> error + pyfloat" where
  "float_round2 x =
     (case x of
        Finite s m e \<Rightarrow>
          (case round_double (hundredths m e) 100 of
             Some (m', e') \<Rightarrow> Inr (Finite s m' e')
           | None \<Rightarrow> Inl OverflowError)
      | _ \<Rightarrow> Inr x)"

fun digits10 :: "nat \<Rightarrow> ustring" where
  "digits10 n = (if n < 10 then [48 + n] else digits10 (n div 10) @ [48 + n mod 10])"

declare digits10.simps [simp del]

text \<open>The format specification \<open>.2f\<close> on a float.\<close>

definition float_format_2f :: "pyfloat \<Rightarrow> ustring" where
  "float_format_2f x =
     (case x of
        Finite s m e \<Rightarrow>
          (let n = hundredths m e
           in (if s then asc ''-'' else []) @ digits10 (n div 100) @ asc ''.''
              @ [48 + n mod 100 div 10, 48 + n mod 10])
      | Infinity s \<Rightarrow> (if s then asc ''-inf'' else asc ''inf'')
      | NaN \<Rightarrow> asc ''nan'')"

subsection \<open>JSON values, and what the interpreter supplies\<close>

text \<open>
  \<open>json.loads\<close> returns \<open>None\<close>, a \<open>bool\<close>, an \<open>int\<close>, a \<open>float\<close>, a \<open>str\<close>, a
  \<open>list\<close> or a \<open>dict\<close>.  A \<open>dict\<close> is an association list read with \<open>map_of\<close>.
\<close>

datatype json =
    JNull
  | JBool bool
  | JInt int
  | JFloat pyfloat
  | JStr ustring
  | JList "json list"
  | JDict "(ustring \<times> json) list"

text \<open>
  Three tables of the interpreter are not part of the repository and are parameters:
  the decimal value of a non-ASCII code point of Unicode category Nd (consulted by
  \<open>\d\<close> and by \<open>float\<close>), whether a non-ASCII code point is whitespace (consulted by
  \<open>str.strip\<close>), and the text \<open>str\<close> gives for a list or a dict.
\<close>

record runtime =
  rt_digit :: "nat \<Rightarrow> nat option"
  rt_space :: "nat \<Rightarrow> bool"
  rt_str :: "json \<Rightarrow> ustring"

definition digit_val :: "runtime \<Rightarrow> nat \<Rightarrow> nat option" where
  "digit_val rt c =
     (if c < 128 then (if 48 \<le> c \<and> c \<le> 57 then Some (c - 48) else None)
      else rt_digit rt c)"

definition isspace :: "runtime \<Rightarrow> nat \<Rightarrow> bool" where
  "isspace rt c =
     (if c < 128 then (9 \<le> c \<and> c \<le> 13) \<or> (28 \<le> c \<and> c \<le> 32) else rt_space rt c)"

definition strip :: "runtime \<Rightarrow> ustring \<Rightarrow> ustring" where
  "strip rt s = rev (dropWhile (isspace rt) (rev (dropWhile (isspace rt) s)))"

fun truthy :: "json \<Rightarrow> bool" where
  "truthy JNull = False"
| "truthy (JBool b) = b"
| "truthy (JInt n) = (n \<noteq> 0)"
| "truthy (JFloat x) = (\<not> float_is_zero x)"
| "truthy (JStr s) = (s \<noteq> [])"
| "truthy (JList xs) = (xs \<noteq> [])"
| "truthy (JDict kvs) = (kvs \<noteq> [])"

fun py_str :: "runtime \<Rightarrow> json \<Rightarrow> ustring" where
  "py_str rt (JStr s) = s"
| "py_str rt v = rt_str rt v"

section \<open>clean_number\<close>

text \<open>\<open>re.sub(r'[^\d.-]', '', s)\<close>: keep the digits, the points and the minus signs.\<close>

definition re_sub_non_numeric :: "runtime \<Rightarrow> ustring \<Rightarrow> ustring" where
  "re_sub_non_numeric rt s = filter (\<lambda>c. digit_val rt c \<noteq> None \<or> c = 46 \<or> c = 45) s"

fun digits_val :: "runtime \<Rightarrow> ustring \<Rightarrow> nat \<Rightarrow> nat option" where
  "digits_val rt [] acc = Some acc"
| "digits_val rt (c # cs) acc =
     (case digit_val rt c of None \<Rightarrow> None | Some d \<Rightarrow> digits_val rt cs (10 * acc + d))"

text \<open>
  \<open>float(s)\<close> on a string of digits, points and minus signs, which is all the
  substitution leaves: an optional leading minus, then digits with at most one point and
  at least one digit.  Anything else is a \<open>ValueError\<close>.  A value beyond the largest
  double is an infinity.
\<close>

definition float_of_clean_str :: "runtime \<Rightarrow> ustring \<Rightarrow> error + pyfloat" where
  "float_of_clean_str rt s =
     (let neg = (s \<noteq> [] \<and> hd s = 45);
          body = (if neg then tl s else s);
          ip = takeWhile (\<lambda>c. c \<noteq> 46) body;
          fp = drop 1 (dropWhile (\<lambda>c. c \<noteq> 46) body)
      in if ip @ fp = [] then Inl ValueError
         else case digits_val rt (ip @ fp) 0 of
                None \<Rightarrow> Inl ValueError
              | Some n \<Rightarrow> Inr (mk_float neg n (10 ^ length fp)))"

text \<open>\<open>isinstance(value, (int, float))\<close>; a \<open>bool\<close> is an \<open>int\<close>.\<close>

fun is_int_or_float :: "json \<Rightarrow> bool" where
  "is_int_or_float (JBool b) = True"
| "is_int_or_float (JInt n) = True"
| "is_int_or_float (JFloat x) = True"
| "is_int_or_float _ = False"

text \<open>\<open>float(value)\<close> on such a value.\<close>

fun py_float :: "json \<Rightarrow> error + pyfloat" where
  "py_float (JBool b) = float_of_int (if b then 1 else 0)"
| "py_float (JInt n) = float_of_int n"
| "py_float (JFloat x) = Inr x"
| "py_float _ = Inl TypeError"

text \<open>
  \<^verbatim>\<open>
  def clean_number(value):
      if not value: return 0.0
      if isinstance(value, (int, float)): return float(value)
      clean_str = re.sub(r'[^\d.-]', '', str(value))
      try: return float(clean_str)
      except: return 0.0
  \<close>
  The conversion of a number stands outside the \<open>try\<close>.
\<close>

definition clean_number :: "runtime \<Rightarrow> json \<Rightarrow> error + pyfloat" where
  "clean_number rt v =
     (if \<not> truthy v then Inr (Finite False 0 0)
      else if is_int_or_float v then py_float v
      else let clean_str = re_sub_non_numeric rt (py_str rt v)
           in case float_of_clean_str rt clean_str of
                Inl e \<Rightarrow> Inr (Finite False 0 0)
              | Inr x \<Rightarrow> Inr x)"

section \<open>flatten_to_excel_rows\<close>

subsection \<open>The operations of Python the function uses\<close>

text \<open>\<open>obj.get(key, default)\<close>: only a \<open>dict\<close> has the method.\<close>

definition dict_get :: "(ustring \<times> json) list \<Rightarrow> ustring \<Rightarrow> json \<Rightarrow> json" where
  "dict_get kvs k d = (case map_of kvs k of None \<Rightarrow> d | Some v \<Rightarrow> v)"

fun py_get :: "json \<Rightarrow> ustring \<Rightarrow> json \<Rightarrow> error + json" where
  "py_get (JDict kvs) k d = Inr (dict_get kvs k d)"
| "py_get _ k d = Inl AttributeError"

text \<open>The elements of a list in the order of their first occurrence.\<close>

definition first_seen :: "'a list \<Rightarrow> 'a list" where
  "first_seen xs = rev (remdups (rev xs))"

definition dict_keys :: "(ustring \<times> json) list \<Rightarrow> ustring list" where
  "dict_keys kvs = first_seen (map fst kvs)"

fun py_len :: "json \<Rightarrow> error + nat" where
  "py_len (JStr s) = Inr (length s)"
| "py_len (JList xs) = Inr (length xs)"
| "py_len (JDict kvs) = Inr (length (dict_keys kvs))"
| "py_len _ = Inl TypeError"

text \<open>What a \<open>for\<close> loop iterates over: a \<open>str\<close> gives its characters, a \<open>dict\<close> its keys.\<close>

fun py_iter :: "json \<Rightarrow> error + json list" where
  "py_iter (JList xs) = Inr xs"
| "py_iter (JStr s) = Inr (map (\<lambda>c. JStr [c]) s)"
| "py_iter (JDict kvs) = Inr (map JStr (dict_keys kvs))"
| "py_iter _ = Inl TypeError"

fun py_strip :: "runtime \<Rightarrow> json \<Rightarrow> error + json" where
  "py_strip rt (JStr s) = Inr (JStr (strip rt s))"
| "py_strip rt _ = Inl AttributeError"

text \<open>\<open>round(x, 2)\<close> and \<open>f"{x:.2f}"\<close> on the numbers the function holds: a float, or the int 0.\<close>

fun py_round2 :: "json \<Rightarrow> error + json" where
  "py_round2 (JInt n) = Inr (JInt n)"
| "py_round2 (JFloat x) = bind (float_round2 x) (\<lambda>y. Inr (JFloat y))"
| "py_round2 _ = Inl TypeError"

fun py_format_2f :: "json \<Rightarrow> error + json" where
  "py_format_2f (JInt n) = bind (float_of_int n) (\<lambda>x. Inr (JStr (float_format_2f x)))"
| "py_format_2f (JFloat x) = Inr (JStr (float_format_2f x))"
| "py_format_2f _ = Inl TypeError"

text \<open>\<open>a / b * 100\<close> on floats.\<close>

definition percent_of :: "pyfloat \<Rightarrow> pyfloat \<Rightarrow> error + json" where
  "percent_of a b =
     bind (float_truediv a b) (\<lambda>q. bind (float_of_int 100) (\<lambda>h. Inr (JFloat (float_mul q h))))"

text \<open>A dict display evaluates its values from left to right; the first exception ends it.\<close>

fun dict_literal :: "(ustring \<times> (error + json)) list \<Rightarrow> error + (ustring \<times> json) list" where
  "dict_literal [] = Inr []"
| "dict_literal ((k, c) # rest) =
     bind c (\<lambda>v. bind (dict_literal rest) (\<lambda>r. Inr ((k, v) # r)))"

text \<open>A \<open>for\<close> loop whose body updates a state and may raise.\<close>

fun for_loop :: "('s \<Rightarrow> 'a \<Rightarrow> error + 's) \<Rightarrow> 'a list \<Rightarrow> 's \<Rightarrow> error + 's" where
  "for_loop body [] s = Inr s"
| "for_loop body (x # xs) s = bind (body s x) (for_loop body xs)"

subsection \<open>The function\<close>

type_synonym row = "(ustring \<times> json) list"

text \<open>
  The dict display that builds the row, from the variables in scope.  \<open>final_scheme\<close>,
  \<open>product_group_val\<close> and \<open>sb_type\<close> are the assignments just before it.
\<close>

definition row_display ::
  "json \<Rightarrow> json \<Rightarrow> json \<Rightarrow> pyfloat \<Rightarrow> json \<Rightarrow> pyfloat \<Rightarrow> pyfloat \<Rightarrow> pyfloat \<Rightarrow> pyfloat \<Rightarrow>
   json \<Rightarrow> json \<Rightarrow> json \<Rightarrow> json \<Rightarrow> (ustring \<times> (error + json)) list" where
  "row_display header invoice item ex_rate currency fob_inr qty dbk_amt rodtep_amt
     fob_fc rodtep_pct dbk_pct description =
     (let final_scheme = JStr (asc ''DRAWBACK'');
          product_group_val = description;
          sb_type = description
      in [(asc ''Sr. No.'', Inr (JStr [])),
          (asc ''SB NO.'', py_get header (asc ''SB NO.'') (JStr [])),
          (asc ''S/B Date'', py_get header (asc ''S/B Date'') (JStr [])),
          (asc ''LEO Date'', py_get header (asc ''LEO Date'') (JStr [])),
          (asc ''Customer Name'', py_get header (asc ''CUSTOMER NAME'') (JStr [])),
          (asc ''Final Invoice No.'', py_get invoice (asc ''FINAL INVOICE NO'') (JStr [])),
          (asc ''SB '' @ [8211] @ asc '' Solar / Other Goods'', Inr sb_type),
          (asc ''Port Code'', py_get header (asc ''PORT CODE'') (JStr [])),
          (asc ''Incoterms'', py_get invoice (asc ''INCOTERMS'') (JStr [])),
          (asc ''Country'', py_get header (asc ''COUNTRY'') (JStr [])),
          (asc ''H.S. ITC (HS Code)'', py_get item (asc ''H.S. Itch code'') (JStr [])),
          (asc ''Product Group'', Inr product_group_val),
          (asc ''Qty'', Inr (JFloat qty)),
          (asc ''Unit'', py_get item (asc ''Unit'') (JStr [])),
          (asc ''FOB Value Declared by Us (S/B) in FC'', py_round2 fob_fc),
          (asc ''Currency of Export'', Inr currency),
          (asc ''Custom Exchange Rate (in FC)'', Inr (JFloat ex_rate)),
          (asc ''LEO Date Exchange Rate (in FC)'', Inr (JFloat ex_rate)),
          (asc ''FOB Value as per SB in INR'', py_round2 (JFloat fob_inr)),
          (asc ''FOB Value as per LEO Ex. Rate in INR'', py_round2 (JFloat fob_inr)),
          (asc ''Scheme (ADV/DFIA/Drawback)'', Inr final_scheme),
          (asc ''DBK %'', py_format_2f dbk_pct),
          (asc ''Drawback Receivable on FOB'', py_round2 (JFloat dbk_amt)),
          (asc ''RoDTEP %'', py_format_2f rodtep_pct),
          (asc ''RoDTEP Receivable'', py_round2 (JFloat rodtep_amt)),
          (asc ''RoDTEP Y/N'',
             Inr (JStr (if float_gt0 rodtep_amt then asc ''Yes'' else asc ''No''))),
          (asc ''Balance RoDTEP'', py_round2 (JFloat rodtep_amt))])"

text \<open>The body of the loop over the items of an invoice, up to the row it appends.\<close>

definition make_row :: "runtime \<Rightarrow> json \<Rightarrow> json \<Rightarrow> pyfloat \<Rightarrow> json \<Rightarrow> json \<Rightarrow> error + row" where
  "make_row rt header invoice ex_rate currency item =
     bind (bind (py_get item (asc ''FOB Value as per SB in INR'') JNull) (clean_number rt)) (\<lambda>fob_inr.
     bind (bind (py_get item (asc ''Qty'') JNull) (clean_number rt)) (\<lambda>qty.
     bind (bind (py_get item (asc ''DRAWBACK Receivable on fob'') JNull) (clean_number rt)) (\<lambda>dbk_amt.
     bind (bind (py_get item (asc ''RoDTEP RECEIVABLE'') JNull) (clean_number rt)) (\<lambda>rodtep_amt.
     bind (if float_gt0 ex_rate
           then bind (float_truediv fob_inr ex_rate) (\<lambda>q. Inr (JFloat q))
           else Inr (JInt 0)) (\<lambda>fob_fc.
     bind (if float_gt0 fob_inr then percent_of rodtep_amt fob_inr else Inr (JInt 0)) (\<lambda>rodtep_pct.
     bind (if float_gt0 fob_inr then percent_of dbk_amt fob_inr else Inr (JInt 0)) (\<lambda>dbk_pct.
     bind (bind (py_get item (asc ''PRODUCT GROUP'') (JStr [])) (py_strip rt)) (\<lambda>description.
     dict_literal
       (row_display header invoice item ex_rate currency fob_inr qty dbk_amt rodtep_amt
          fob_fc rodtep_pct dbk_pct description)))))))))"

text \<open>The body of the loop over the invoices; \<open>item_count\<close> is computed and not used.\<close>

definition invoice_body :: "runtime \<Rightarrow> json \<Rightarrow> row list \<Rightarrow> json \<Rightarrow> error + row list" where
  "invoice_body rt header flat_rows invoice =
     bind (py_get invoice (asc ''items'') (JList [])) (\<lambda>items.
     bind (py_len items) (\<lambda>n.
     let item_count = (if n > 0 then n else 1) in
     bind (bind (py_get invoice (asc ''Custom Exchange Rate in FC'') JNull) (clean_number rt)) (\<lambda>ex_rate.
     bind (py_get invoice (asc ''Currency of export'') (JStr (asc ''USD''))) (\<lambda>currency.
     bind (py_iter items) (\<lambda>its.
     for_loop
       (\<lambda>rows item. bind (make_row rt header invoice ex_rate currency item) (\<lambda>row. Inr (rows @ [row])))
       its flat_rows)))))"

definition flatten_to_excel_rows :: "runtime \<Rightarrow> json \<Rightarrow> error + row list" where
  "flatten_to_excel_rows rt hierarchical_data =
     bind (py_get hierarchical_data (asc ''shipping_bill_header'') (JDict [])) (\<lambda>header.
     bind (py_get hierarchical_data (asc ''invoices'') (JList [])) (\<lambda>invoices.
     bind (py_iter invoices) (\<lambda>invs.
     for_loop (invoice_body rt header) invs [])))"

section \<open>process_files\<close>

definition FINAL_COLUMNS :: "ustring list" where
  "FINAL_COLUMNS =
     [asc ''Sr. No.'',
      asc ''SB NO.'',
      asc ''S/B Date'',
      asc ''LEO Date'',
      asc ''Customer Name'',
      asc ''Final Invoice No.'',
      asc ''SB '' @ [8211] @ asc '' Solar / Other Goods'',
      asc ''Port Code'',
      asc ''Incoterms'',
      asc ''Country'',
      asc ''H.S. ITC (HS Code)'',
      asc ''Product Group'',
      asc ''Qty'',
      asc ''Unit'',
      asc ''FOB Value Declared by Us (S/B) in FC'',
      asc ''Currency of Export'',
      asc ''Custom Exchange Rate (in FC)'',
      asc ''LEO Date Exchange Rate (in FC)'',
      asc ''FOB Value as per SB in INR'',
      asc ''FOB Value as per LEO Ex. Rate in INR'',
      asc ''Scheme (ADV/DFIA/Drawback)'',
      asc ''DBK %'',
      asc ''Drawback Receivable on FOB'',
      asc ''RoDTEP %'',
      asc ''RoDTEP Receivable'',
      asc ''RoDTEP Y/N'',
      asc ''Balance RoDTEP'']"

subsection \<open>The data frame\<close>

text \<open>
  A pandas \<open>DataFrame\<close> is its column labels and its rows, every row holding one cell
  for each label, in the order of the labels.  A cell is kept as the Python value put
  into it; the conversion of a column to one numeric type is not modelled.
\<close>

record dataframe =
  df_columns :: "ustring list"
  df_rows :: "row list"

definition cell :: "row \<Rightarrow> ustring \<Rightarrow> json" where
  "cell r c = (case map_of r c of None \<Rightarrow> JFloat NaN | Some v \<Rightarrow> v)"

text \<open>
  \<open>pd.DataFrame(records)\<close> on a list of dicts: the labels are the keys in the order
  they are first seen, and a key that a record lacks gives a NaN cell.
\<close>

definition DataFrame :: "row list \<Rightarrow> dataframe" where
  "DataFrame records =
     (let cols = first_seen (concat (map (map fst) records))
      in \<lparr>df_columns = cols, df_rows = map (\<lambda>r. map (\<lambda>c. (c, cell r c)) cols) records\<rparr>)"

text \<open>\<open>df[labels]\<close>: the columns named, in the order named; a label not in the frame raises.\<close>

definition df_getitem :: "dataframe \<Rightarrow> ustring list \<Rightarrow> error + dataframe" where
  "df_getitem df labels =
     (if set labels \<subseteq> set (df_columns df)
      then Inr \<lparr>df_columns = labels,
                df_rows = map (\<lambda>r. map (\<lambda>c. (c, cell r c)) labels) (df_rows df)\<rparr>
      else Inl KeyError)"


definition py_range :: "nat \<Rightarrow> nat \<Rightarrow> json list" where
  "py_range a b = map (\<lambda>i. JInt (int i)) [a..<b]"

subsection \<open>The function\<close>



definition project_columns :: "row list \<Rightarrow> error + dataframe" where
  "project_columns all_data =
     (let df = DataFrame all_data;
          safe_columns = filter (\<lambda>c. c \<in> set (df_columns df)) FINAL_COLUMNS
      in df_getitem df safe_columns)"


section \<open>What the loops visit\<close>

text \<open>
  The invoices the outer loop visits, and for an invoice the items, the exchange rate and
  the currency the inner loop works with.
\<close>

definition invoices_of :: "json \<Rightarrow> error + json list" where
  "invoices_of hierarchical_data =
     bind (py_get hierarchical_data (asc ''invoices'') (JList [])) py_iter"

definition items_of :: "json \<Rightarrow> error + json list" where
  "items_of invoice = bind (py_get invoice (asc ''items'') (JList [])) py_iter"

definition ex_rate_of :: "runtime \<Rightarrow> json \<Rightarrow> error + pyfloat" where
  "ex_rate_of rt invoice =
     bind (py_get invoice (asc ''Custom Exchange Rate in FC'') JNull) (clean_number rt)"

definition currency_of :: "json \<Rightarrow> error + json" where
  "currency_of invoice = py_get invoice (asc ''Currency of export'') (JStr (asc ''USD''))"

definition fob_inr_of :: "runtime \<Rightarrow> json \<Rightarrow> error + pyfloat" where
  "fob_inr_of rt item =
     bind (py_get item (asc ''FOB Value as per SB in INR'') JNull) (clean_number rt)"

section \<open>Concrete inputs\<close>

text \<open>An interpreter whose tables hold nothing beyond ASCII.\<close>

definition plain_runtime :: runtime where
  "plain_runtime = \<lparr>rt_digit = (\<lambda>c. None), rt_space = (\<lambda>c. False), rt_str = (\<lambda>v. [])\<rparr>"

text \<open>
  One document with one invoice (rate 83.0, currency USD) and one item (FOB 830000,
  quantity 100, drawback 8300, RoDTEP 4150), under the header \<open>hdr\<close>.
\<close>

definition scenario_1 :: "(ustring \<times> json) list \<Rightarrow> json" where
  "scenario_1 hdr =
     JDict
       [(asc ''shipping_bill_header'', JDict hdr),
        (asc ''invoices'',
         JList
           [JDict
              [(asc ''Custom Exchange Rate in FC'', JFloat (Finite False 83 0)),
               (asc ''Currency of export'', JStr (asc ''USD'')),
               (asc ''items'',
                JList
                  [JDict
                     [(asc ''FOB Value as per SB in INR'', JInt 830000),
                      (asc ''Qty'', JInt 100),
                      (asc ''DRAWBACK Receivable on fob'', JInt 8300),
                      (asc ''RoDTEP RECEIVABLE'', JInt 4150)]])]])]"

text \<open>The value of a column in the \<open>i\<close>-th row of a result, when there is one.\<close>

definition field_of :: "error + row list \<Rightarrow> nat \<Rightarrow> ustring \<Rightarrow> json option" where
  "field_of res i k =
     (case res of Inl e \<Rightarrow> None | Inr rows \<Rightarrow> if i < length rows then map_of (rows ! i) k else None)"

text \<open>A document with one invoice that has no items.\<close>

definition no_items_doc :: json where
  "no_items_doc = JDict [(asc ''invoices'', JList [JDict [(asc ''items'', JList [])]])]"

text \<open>The row of \<open>scenario_1\<close> under the header \<open>hdr\<close>.\<close>

definition scenario_1_row :: "(ustring \<times> json) list \<Rightarrow> row" where
  "scenario_1_row hdr =
     [(asc ''Sr. No.'', JStr []),
      (asc ''SB NO.'', dict_get hdr (asc ''SB NO.'') (JStr [])),
      (asc ''S/B Date'', dict_get hdr (asc ''S/B Date'') (JStr [])),
      (asc ''LEO Date'', dict_get hdr (asc ''LEO Date'') (JStr [])),
      (asc ''Customer Name'', dict_get hdr (asc ''CUSTOMER NAME'') (JStr [])),
      (asc ''Final Invoice No.'', JStr []),
      (asc ''SB '' @ [8211] @ asc '' Solar / Other Goods'', JStr []),
      (asc ''Port Code'', dict_get hdr (asc ''PORT CODE'') (JStr [])),
      (asc ''Incoterms'', JStr []),
      (asc ''Country'', dict_get hdr (asc ''COUNTRY'') (JStr [])),
      (asc ''H.S. ITC (HS Code)'', JStr []),
      (asc ''Product Group'', JStr []),
      (asc ''Qty'', JFloat (Finite False 25 2)),
      (asc ''Unit'', JStr []),
      (asc ''FOB Value Declared by Us (S/B) in FC'', JFloat (Finite False 625 4)),
      (asc ''Currency of Export'', JStr (asc ''USD'')),
      (asc ''Custom Exchange Rate (in FC)'', JFloat (Finite False 83 0)),
      (asc ''LEO Date Exchange Rate (in FC)'', JFloat (Finite False 83 0)),
      (asc ''FOB Value as per SB in INR'', JFloat (Finite False 51875 4)),
      (asc ''FOB Value as per LEO Ex. Rate in INR'', JFloat (Finite False 51875 4)),
      (asc ''Scheme (ADV/DFIA/Drawback)'', JStr (asc ''DRAWBACK'')),
      (asc ''DBK %'', JStr (asc ''1.00'')),
      (asc ''Drawback Receivable on FOB'', JFloat (Finite False 2075 2)),
      (asc ''RoDTEP %'', JStr (asc ''0.50'')),
      (asc ''RoDTEP Receivable'', JFloat (Finite False 2075 1)),
      (asc ''RoDTEP Y/N'', JStr (asc ''Yes'')),
      (asc ''Balance RoDTEP'', JFloat (Finite False 2075 1))]"

text \<open>A document with one invoice whose currency is the empty text, and one empty item.\<close>

definition empty_currency_doc :: json where
  "empty_currency_doc =
     JDict
       [(asc ''invoices'',
         JList [JDict [(asc ''Currency of export'', JStr []), (asc ''items'', JList [JDict []])]])]"

text \<open>A document whose \<open>invoices\<close> is \<open>null\<close>.\<close>

definition null_invoices_doc :: json where
  "null_invoices_doc = JDict [(asc ''invoices'', JNull)]"

text \<open>One record with a canonical key and a key that is not canonical.\<close>

definition two_key_records :: "row list" where
  "two_key_records = [[(asc ''Unit'', JStr (asc ''KGS'')), (asc ''Remarks'', JStr (asc ''x''))]]"


section \<open>Lemmas\<close>

lemmas float_eval =
  round_double_def ilog2_def round_half_even_def bitlength.simps dyadic.simps Let_def
  mk_float_def hundredths_def float_of_int_def

lemma bind_Inr [simp]: "bind (Inr x) f = f x"
  by (simp add: bind_def)

lemma bind_Inl [simp]: "bind (Inl e) f = Inl e"
  by (simp add: bind_def)

lemma bind_eq_Inr: "bind m f = Inr y \<longleftrightarrow> (\<exists>x. m = Inr x \<and> f x = Inr y)"
  by (cases m) simp_all

lemma bind_eq_Inl: "bind m f = Inl e \<longleftrightarrow> m = Inl e \<or> (\<exists>x. m = Inr x \<and> f x = Inl e)"
  by (cases m) simp_all

lemma dict_literal_keys: "dict_literal kcs = Inr r \<Longrightarrow> map fst r = map fst kcs"
  by (induction kcs arbitrary: r) (auto simp: bind_eq_Inr)

lemma dict_literal_field:
  "dict_literal kcs = Inr r \<Longrightarrow> map_of kcs k = Some c \<Longrightarrow> \<exists>v. c = Inr v \<and> map_of r k = Some v"
  by (induction kcs arbitrary: r) (auto simp: bind_eq_Inr split: if_splits)

lemma make_row_Inr:
  assumes "make_row rt header invoice ex_rate currency item = Inr r"
  shows "\<exists>v1 fob_inr v2 qty v3 dbk_amt v4 rodtep_amt fob_fc rodtep_pct dbk_pct pg description.
     py_get item (asc ''FOB Value as per SB in INR'') JNull = Inr v1 \<and>
     clean_number rt v1 = Inr fob_inr \<and>
     py_get item (asc ''Qty'') JNull = Inr v2 \<and>
     clean_number rt v2 = Inr qty \<and>
     py_get item (asc ''DRAWBACK Receivable on fob'') JNull = Inr v3 \<and>
     clean_number rt v3 = Inr dbk_amt \<and>
     py_get item (asc ''RoDTEP RECEIVABLE'') JNull = Inr v4 \<and>
     clean_number rt v4 = Inr rodtep_amt \<and>
     (if float_gt0 ex_rate
      then bind (float_truediv fob_inr ex_rate) (\<lambda>q. Inr (JFloat q))
      else Inr (JInt 0)) = Inr fob_fc \<and>
     (if float_gt0 fob_inr then percent_of rodtep_amt fob_inr else Inr (JInt 0)) = Inr rodtep_pct \<and>
     (if float_gt0 fob_inr then percent_of dbk_amt fob_inr else Inr (JInt 0)) = Inr dbk_pct \<and>
     py_get item (asc ''PRODUCT GROUP'') (JStr []) = Inr pg \<and>
     py_strip rt pg = Inr description \<and>
     dict_literal
       (row_display header invoice item ex_rate currency fob_inr qty dbk_amt rodtep_amt
          fob_fc rodtep_pct dbk_pct description) = Inr r"
  using assms unfolding make_row_def bind_eq_Inr
  by (elim exE conjE) (intro exI conjI, assumption+)


lemma py_len_iter: "py_iter v = Inr xs \<Longrightarrow> py_len v = Inr (length xs)"
  by (cases v) auto

lemma for_loop_append_acc:
  "for_loop (\<lambda>s x. bind (f x) (\<lambda>r. Inr (s @ g r))) xs s =
   bind (for_loop (\<lambda>s x. bind (f x) (\<lambda>r. Inr (s @ g r))) xs []) (\<lambda>rs. Inr (s @ rs))"
proof (induction xs arbitrary: s)
  case Nil
  show ?case by simp
next
  case (Cons x xs)
  show ?case
  proof (cases "f x")
    case (Inl e)
    then show ?thesis by simp
  next
    case (Inr r)
    let ?body = "\<lambda>s x. bind (f x) (\<lambda>r. Inr (s @ g r))"
    have "for_loop ?body (x # xs) s = for_loop ?body xs (s @ g r)"
      using Inr by simp
    also have "\<dots> = bind (for_loop ?body xs []) (\<lambda>rs. Inr ((s @ g r) @ rs))"
      by (rule Cons.IH)
    finally have l: "for_loop ?body (x # xs) s = bind (for_loop ?body xs []) (\<lambda>rs. Inr (s @ g r @ rs))"
      by simp
    have "for_loop ?body (x # xs) [] = for_loop ?body xs (g r)"
      using Inr by simp
    also have "\<dots> = bind (for_loop ?body xs []) (\<lambda>rs. Inr (g r @ rs))"
      using Cons.IH [of "g r"] by simp
    finally have r: "for_loop ?body (x # xs) [] = bind (for_loop ?body xs []) (\<lambda>rs. Inr (g r @ rs))" .
    show ?thesis
      unfolding l r by (cases "for_loop ?body xs []") simp_all
  qed
qed

lemma for_loop_append_Inr:
  "for_loop (\<lambda>s x. bind (f x) (\<lambda>r. Inr (s @ g r))) xs s = Inr out \<longleftrightarrow>
   (\<exists>rs. list_all2 (\<lambda>x r. f x = Inr r) xs rs \<and> out = s @ concat (map g rs))"
proof (induction xs arbitrary: s out)
  case Nil
  show ?case by auto
next
  case (Cons x xs)
  let ?body = "\<lambda>s x. bind (f x) (\<lambda>r. Inr (s @ g r))"
  have "for_loop ?body (x # xs) s = Inr out \<longleftrightarrow>
        (\<exists>r. f x = Inr r \<and> for_loop ?body xs (s @ g r) = Inr out)"
    by (cases "f x") simp_all
  also have "\<dots> \<longleftrightarrow>
        (\<exists>r rs. f x = Inr r \<and> list_all2 (\<lambda>x r. f x = Inr r) xs rs \<and>
                out = s @ concat (map g (r # rs)))"
    by (simp add: Cons.IH)
  also have "\<dots> \<longleftrightarrow>
        (\<exists>rs. list_all2 (\<lambda>x r. f x = Inr r) (x # xs) rs \<and> out = s @ concat (map g rs))"
    unfolding list_all2_Cons1 by blast
  finally show ?case .
qed

lemma invoice_body_acc:
  "invoice_body rt header acc invoice =
   bind (invoice_body rt header [] invoice) (\<lambda>rs. Inr (acc @ rs))"
proof -
  have "bind (bind m f) g = bind m (\<lambda>x. bind (f x) g)" for m :: "error + 'x" and f :: "'x \<Rightarrow> error + 'y" and g :: "'y \<Rightarrow> error + 'z"
    by (cases m) simp_all
  note assoc = this
  show ?thesis
    unfolding invoice_body_def Let_def assoc
    by (subst for_loop_append_acc [where g = "\<lambda>r. [r]"]) (rule refl)
qed

lemma invoice_body_Inr:
  "invoice_body rt header [] invoice = Inr rs \<longleftrightarrow>
   (\<exists>its ex_rate currency.
      items_of invoice = Inr its \<and> ex_rate_of rt invoice = Inr ex_rate \<and>
      currency_of invoice = Inr currency \<and>
      list_all2 (\<lambda>item r. make_row rt header invoice ex_rate currency item = Inr r) its rs)"
proof -
  have *: "concat (map (\<lambda>r. [r]) xs) = xs" for xs :: "row list"
    by (induction xs) simp_all
  show ?thesis
    unfolding invoice_body_def Let_def items_of_def ex_rate_of_def currency_of_def
    by (auto simp: bind_eq_Inr for_loop_append_Inr * dest: py_len_iter)
qed

lemma flatten_Inr:
  "flatten_to_excel_rows rt d = Inr rows \<longleftrightarrow>
   (\<exists>header invs rss.
      py_get d (asc ''shipping_bill_header'') (JDict []) = Inr header \<and>
      invoices_of d = Inr invs \<and>
      list_all2 (\<lambda>invoice rs. invoice_body rt header [] invoice = Inr rs) invs rss \<and>
      rows = concat rss)"
proof -
  have body: "invoice_body rt header =
      (\<lambda>s x. bind (invoice_body rt header [] x) (\<lambda>r. Inr (s @ (\<lambda>r. r) r)))" for header
    by (intro ext) (simp add: invoice_body_acc [symmetric])
  show ?thesis
    unfolding flatten_to_excel_rows_def invoices_of_def
    by (subst body) (auto simp: bind_eq_Inr for_loop_append_Inr)
qed

lemma py_round2_float: "py_round2 (JFloat x) = Inr v \<Longrightarrow> \<exists>y. float_round2 x = Inr y \<and> v = JFloat y"
  by (auto simp: bind_eq_Inr)

lemma py_format_2f_zero: "py_format_2f (JInt 0) = Inr (JStr (asc ''0.00''))"
  by (simp add: float_format_2f_def digits10.simps asc_def float_eval)

lemma make_row_fields:
  assumes "make_row rt header invoice ex_rate currency item = Inr r"
  shows "map_of r (asc ''Sr. No.'') = Some (JStr [])"
    and "map_of r (asc ''Currency of Export'') = Some currency"
    and "map_of r (asc ''Custom Exchange Rate (in FC)'') = Some (JFloat ex_rate)"
    and "map_of r (asc ''LEO Date Exchange Rate (in FC)'') = Some (JFloat ex_rate)"
    and "\<exists>fob_inr x. fob_inr_of rt item = Inr fob_inr \<and> float_round2 fob_inr = Inr x \<and>
           map_of r (asc ''FOB Value as per SB in INR'') = Some (JFloat x) \<and>
           map_of r (asc ''FOB Value as per LEO Ex. Rate in INR'') = Some (JFloat x) \<and>
           (\<not> float_gt0 ex_rate \<longrightarrow>
              map_of r (asc ''FOB Value Declared by Us (S/B) in FC'') = Some (JInt 0)) \<and>
           (\<not> float_gt0 fob_inr \<longrightarrow>
              map_of r (asc ''DBK %'') = Some (JStr (asc ''0.00'')) \<and>
              map_of r (asc ''RoDTEP %'') = Some (JStr (asc ''0.00'')))"
    and "\<exists>h. header = JDict h \<and>
           map_of r (asc ''SB NO.'') = Some (dict_get h (asc ''SB NO.'') (JStr [])) \<and>
           map_of r (asc ''S/B Date'') = Some (dict_get h (asc ''S/B Date'') (JStr [])) \<and>
           map_of r (asc ''LEO Date'') = Some (dict_get h (asc ''LEO Date'') (JStr [])) \<and>
           map_of r (asc ''Customer Name'') = Some (dict_get h (asc ''CUSTOMER NAME'') (JStr [])) \<and>
           map_of r (asc ''Port Code'') = Some (dict_get h (asc ''PORT CODE'') (JStr [])) \<and>
           map_of r (asc ''Country'') = Some (dict_get h (asc ''COUNTRY'') (JStr []))"
    and "map fst r = FINAL_COLUMNS"
proof -
  from make_row_Inr [OF assms]
  obtain v1 fob_inr qty dbk_amt rodtep_amt fob_fc rodtep_pct dbk_pct description where
    v1: "py_get item (asc ''FOB Value as per SB in INR'') JNull = Inr v1" and
    fob_inr: "clean_number rt v1 = Inr fob_inr" and
    fob_fc: "(if float_gt0 ex_rate
      then bind (float_truediv fob_inr ex_rate) (\<lambda>q. Inr (JFloat q))
      else Inr (JInt 0)) = Inr fob_fc" and
    rodtep_pct: "(if float_gt0 fob_inr then percent_of rodtep_amt fob_inr else Inr (JInt 0)) = Inr rodtep_pct" and
    dbk_pct: "(if float_gt0 fob_inr then percent_of dbk_amt fob_inr else Inr (JInt 0)) = Inr dbk_pct" and
    lit: "dict_literal
       (row_display header invoice item ex_rate currency fob_inr qty dbk_amt rodtep_amt
          fob_fc rodtep_pct dbk_pct description) = Inr r"
    by blast
  let ?disp = "row_display header invoice item ex_rate currency fob_inr qty dbk_amt rodtep_amt
          fob_fc rodtep_pct dbk_pct description"
  note look = dict_literal_field [OF lit]
  have "map_of ?disp (asc ''Sr. No.'') = Some (Inr (JStr []))"
    by (simp add: row_display_def asc_def)
  from look [OF this] show "map_of r (asc ''Sr. No.'') = Some (JStr [])" by simp
  have "map_of ?disp (asc ''Currency of Export'') = Some (Inr currency)"
    by (simp add: row_display_def asc_def)
  from look [OF this] show "map_of r (asc ''Currency of Export'') = Some currency" by simp
  have "map_of ?disp (asc ''Custom Exchange Rate (in FC)'') = Some (Inr (JFloat ex_rate))"
    by (simp add: row_display_def asc_def)
  from look [OF this] show "map_of r (asc ''Custom Exchange Rate (in FC)'') = Some (JFloat ex_rate)"
    by simp
  have "map_of ?disp (asc ''LEO Date Exchange Rate (in FC)'') = Some (Inr (JFloat ex_rate))"
    by (simp add: row_display_def asc_def)
  from look [OF this] show "map_of r (asc ''LEO Date Exchange Rate (in FC)'') = Some (JFloat ex_rate)"
    by simp
  show "map fst r = FINAL_COLUMNS"
    using dict_literal_keys [OF lit] by (simp add: row_display_def FINAL_COLUMNS_def)
  have "map_of ?disp (asc ''FOB Value as per SB in INR'') = Some (py_round2 (JFloat fob_inr))"
    by (simp add: row_display_def asc_def)
  from look [OF this] obtain x where
    x: "float_round2 fob_inr = Inr x" and
    sb: "map_of r (asc ''FOB Value as per SB in INR'') = Some (JFloat x)"
    by (auto simp: bind_eq_Inr)
  have "map_of ?disp (asc ''FOB Value as per LEO Ex. Rate in INR'') = Some (py_round2 (JFloat fob_inr))"
    by (simp add: row_display_def asc_def)
  from look [OF this] x have leo: "map_of r (asc ''FOB Value as per LEO Ex. Rate in INR'') = Some (JFloat x)"
    by (auto simp: bind_eq_Inr)
  have fc: "map_of r (asc ''FOB Value Declared by Us (S/B) in FC'') = Some (JInt 0)"
    if "\<not> float_gt0 ex_rate"
  proof -
    have "map_of ?disp (asc ''FOB Value Declared by Us (S/B) in FC'') = Some (py_round2 fob_fc)"
      by (simp add: row_display_def asc_def)
    from look [OF this] fob_fc that show ?thesis by auto
  qed
  have pct: "map_of r (asc ''DBK %'') = Some (JStr (asc ''0.00'')) \<and>
             map_of r (asc ''RoDTEP %'') = Some (JStr (asc ''0.00''))"
    if "\<not> float_gt0 fob_inr"
  proof -
    have "map_of ?disp (asc ''DBK %'') = Some (py_format_2f dbk_pct)"
      by (simp add: row_display_def asc_def)
    from look [OF this] dbk_pct that
    have 1: "map_of r (asc ''DBK %'') = Some (JStr (asc ''0.00''))"
      using py_format_2f_zero by auto
    have "map_of ?disp (asc ''RoDTEP %'') = Some (py_format_2f rodtep_pct)"
      by (simp add: row_display_def asc_def)
    from look [OF this] rodtep_pct that
    have 2: "map_of r (asc ''RoDTEP %'') = Some (JStr (asc ''0.00''))"
      using py_format_2f_zero by auto
    from 1 2 show ?thesis by simp
  qed
  from v1 fob_inr have "fob_inr_of rt item = Inr fob_inr"
    by (simp add: fob_inr_of_def)
  with x sb leo fc pct
  show "\<exists>fob_inr x. fob_inr_of rt item = Inr fob_inr \<and> float_round2 fob_inr = Inr x \<and>
           map_of r (asc ''FOB Value as per SB in INR'') = Some (JFloat x) \<and>
           map_of r (asc ''FOB Value as per LEO Ex. Rate in INR'') = Some (JFloat x) \<and>
           (\<not> float_gt0 ex_rate \<longrightarrow>
              map_of r (asc ''FOB Value Declared by Us (S/B) in FC'') = Some (JInt 0)) \<and>
           (\<not> float_gt0 fob_inr \<longrightarrow>
              map_of r (asc ''DBK %'') = Some (JStr (asc ''0.00'')) \<and>
              map_of r (asc ''RoDTEP %'') = Some (JStr (asc ''0.00'')))"
    by blast
  have g: "py_get header k (JStr []) = Inr v \<Longrightarrow> \<exists>h. header = JDict h \<and> v = dict_get h k (JStr [])" for k v
    by (cases header) auto
  have "map_of ?disp (asc ''SB NO.'') = Some (py_get header (asc ''SB NO.'') (JStr []))"
    by (simp add: row_display_def asc_def)
  from look [OF this] obtain h where h: "header = JDict h" and
    f1: "map_of r (asc ''SB NO.'') = Some (dict_get h (asc ''SB NO.'') (JStr []))"
    by (auto dest: g)
  have "map_of ?disp (asc ''S/B Date'') = Some (py_get header (asc ''S/B Date'') (JStr []))"
    by (simp add: row_display_def asc_def)
  from look [OF this] h have f2: "map_of r (asc ''S/B Date'') = Some (dict_get h (asc ''S/B Date'') (JStr []))"
    by auto
  have "map_of ?disp (asc ''LEO Date'') = Some (py_get header (asc ''LEO Date'') (JStr []))"
    by (simp add: row_display_def asc_def)
  from look [OF this] h have f3: "map_of r (asc ''LEO Date'') = Some (dict_get h (asc ''LEO Date'') (JStr []))"
    by auto
  have "map_of ?disp (asc ''Customer Name'') = Some (py_get header (asc ''CUSTOMER NAME'') (JStr []))"
    by (simp add: row_display_def asc_def)
  from look [OF this] h have f4: "map_of r (asc ''Customer Name'') = Some (dict_get h (asc ''CUSTOMER NAME'') (JStr []))"
    by auto
  have "map_of ?disp (asc ''Port Code'') = Some (py_get header (asc ''PORT CODE'') (JStr []))"
    by (simp add: row_display_def asc_def)
  from look [OF this] h have f5: "map_of r (asc ''Port Code'') = Some (dict_get h (asc ''PORT CODE'') (JStr []))"
    by auto
  have "map_of ?disp (asc ''Country'') = Some (py_get header (asc ''COUNTRY'') (JStr []))"
    by (simp add: row_display_def asc_def)
  from look [OF this] h have f6: "map_of r (asc ''Country'') = Some (dict_get h (asc ''COUNTRY'') (JStr []))"
    by auto
  from h f1 f2 f3 f4 f5 f6
  show "\<exists>h. header = JDict h \<and>
           map_of r (asc ''SB NO.'') = Some (dict_get h (asc ''SB NO.'') (JStr [])) \<and>
           map_of r (asc ''S/B Date'') = Some (dict_get h (asc ''S/B Date'') (JStr [])) \<and>
           map_of r (asc ''LEO Date'') = Some (dict_get h (asc ''LEO Date'') (JStr [])) \<and>
           map_of r (asc ''Customer Name'') = Some (dict_get h (asc ''CUSTOMER NAME'') (JStr [])) \<and>
           map_of r (asc ''Port Code'') = Some (dict_get h (asc ''PORT CODE'') (JStr [])) \<and>
           map_of r (asc ''Country'') = Some (dict_get h (asc ''COUNTRY'') (JStr []))"
    by blast
qed

lemma list_all2_ex_split:
  "list_all2 (\<lambda>x y. \<exists>z. P x z \<and> Q z y) xs ys \<Longrightarrow> \<exists>zs. list_all2 P xs zs \<and> list_all2 Q zs ys"
proof (induction xs ys rule: list_all2_induct)
  case Nil
  show ?case by simp
next
  case (Cons x xs y ys)
  then obtain z zs where "P x z" "Q z y" "list_all2 P xs zs" "list_all2 Q zs ys"
    by blast
  then have "list_all2 P (x # xs) (z # zs) \<and> list_all2 Q (z # zs) (y # ys)"
    by simp
  then show ?case by blast
qed

lemma list_all2_eq_map: "list_all2 (\<lambda>x y. f x = g y) xs ys \<Longrightarrow> map f xs = map g ys"
  by (induction xs ys rule: list_all2_induct) simp_all

lemma sum_list_length_all2:
  "list_all2 (\<lambda>xs ys. length ys = length xs) xss yss \<Longrightarrow>
   sum_list (map length yss) = sum_list (map length xss)"
  by (induction xss yss rule: list_all2_induct) simp_all

lemma invoice_rows_length:
  "invoice_body rt header [] invoice = Inr rs \<Longrightarrow> \<exists>its. items_of invoice = Inr its \<and> length rs = length its"
  unfolding invoice_body_Inr by (auto dest: list_all2_lengthD)

lemma scenario_1_eval:
  "flatten_to_excel_rows rt (scenario_1 hdr) = Inr [scenario_1_row hdr]"
  by (simp add: scenario_1_def scenario_1_row_def flatten_to_excel_rows_def invoice_body_def
        make_row_def row_display_def clean_number_def percent_of_def float_round2_def
        float_format_2f_def digits10.simps strip_def dict_get_def asc_def float_eval)

lemma invoice_rows_fields:
  assumes "invoice_body rt header [] invoice = Inr rs"
  shows "\<exists>its ex_rate currency.
           items_of invoice = Inr its \<and> ex_rate_of rt invoice = Inr ex_rate \<and>
           currency_of invoice = Inr currency \<and>
           list_all2 (\<lambda>item r. make_row rt header invoice ex_rate currency item = Inr r) its rs"
  using assms unfolding invoice_body_Inr .

lemma currency_of_Inr:
  "currency_of invoice = Inr c \<Longrightarrow>
   \<exists>kvs. invoice = JDict kvs \<and> c = dict_get kvs (asc ''Currency of export'') (JStr (asc ''USD''))"
  unfolding currency_of_def by (cases invoice) auto

lemma flatten_rows:
  assumes "flatten_to_excel_rows rt d = Inr rows"
  shows "\<exists>header invs rss.
           py_get d (asc ''shipping_bill_header'') (JDict []) = Inr header \<and>
           invoices_of d = Inr invs \<and> rows = concat rss \<and>
           list_all2
             (\<lambda>invoice rs. \<exists>its ex_rate currency.
                items_of invoice = Inr its \<and> ex_rate_of rt invoice = Inr ex_rate \<and>
                currency_of invoice = Inr currency \<and>
                list_all2 (\<lambda>item r. make_row rt header invoice ex_rate currency item = Inr r) its rs)
             invs rss"
proof -
  from assms obtain header invs rss where
    header: "py_get d (asc ''shipping_bill_header'') (JDict []) = Inr header" and
    invs: "invoices_of d = Inr invs" and
    bodies: "list_all2 (\<lambda>invoice rs. invoice_body rt header [] invoice = Inr rs) invs rss" and
    rows: "rows = concat rss"
    unfolding flatten_Inr by blast
  from bodies have "list_all2
             (\<lambda>invoice rs. \<exists>its ex_rate currency.
                items_of invoice = Inr its \<and> ex_rate_of rt invoice = Inr ex_rate \<and>
                currency_of invoice = Inr currency \<and>
                list_all2 (\<lambda>item r. make_row rt header invoice ex_rate currency item = Inr r) its rs)
             invs rss"
    by (rule list_all2_mono) (rule invoice_rows_fields)
  with header invs rows show ?thesis by blast
qed

lemma bind_no_zdiv:
  "m \<noteq> Inl ZeroDivisionError \<Longrightarrow> (\<And>x. m = Inr x \<Longrightarrow> f x \<noteq> Inl ZeroDivisionError) \<Longrightarrow>
   bind m f \<noteq> Inl ZeroDivisionError"
  by (cases m) simp_all

lemma py_get_no_zdiv [simp]: "py_get v k d \<noteq> Inl ZeroDivisionError"
  by (cases v) simp_all

lemma py_len_no_zdiv [simp]: "py_len v \<noteq> Inl ZeroDivisionError"
  by (cases v) simp_all

lemma py_iter_no_zdiv [simp]: "py_iter v \<noteq> Inl ZeroDivisionError"
  by (cases v) simp_all

lemma py_strip_no_zdiv [simp]: "py_strip rt v \<noteq> Inl ZeroDivisionError"
  by (cases v) simp_all

lemma float_of_int_no_zdiv [simp]: "float_of_int n \<noteq> Inl ZeroDivisionError"
  by (simp add: float_of_int_def split: option.split)

lemma float_round2_no_zdiv [simp]: "float_round2 x \<noteq> Inl ZeroDivisionError"
  by (simp add: float_round2_def split: pyfloat.split option.split)

lemma py_round2_no_zdiv [simp]: "py_round2 v \<noteq> Inl ZeroDivisionError"
  by (cases v) (simp_all add: bind_no_zdiv)

lemma py_format_2f_no_zdiv [simp]: "py_format_2f v \<noteq> Inl ZeroDivisionError"
  by (cases v) (simp_all add: bind_no_zdiv)

lemma clean_number_no_zdiv [simp]: "clean_number rt v \<noteq> Inl ZeroDivisionError"
  by (cases v) (simp_all add: clean_number_def Let_def split: sum.split)

lemma float_truediv_gt0: "float_gt0 b \<Longrightarrow> float_truediv a b \<noteq> Inl ZeroDivisionError"
  by (cases b) auto

lemma percent_of_gt0: "float_gt0 b \<Longrightarrow> percent_of a b \<noteq> Inl ZeroDivisionError"
  unfolding percent_of_def by (intro bind_no_zdiv) (simp_all add: float_truediv_gt0)

lemma dict_literal_no_zdiv:
  "list_all (\<lambda>kc. snd kc \<noteq> Inl ZeroDivisionError) kcs \<Longrightarrow>
   dict_literal kcs \<noteq> Inl ZeroDivisionError"
proof (induction kcs)
  case Nil
  show ?case by simp
next
  case (Cons kc kcs)
  obtain k c where kc: "kc = (k, c)" by (cases kc)
  from Cons.prems have c: "c \<noteq> Inl ZeroDivisionError"
    by (simp add: kc)
  from Cons.prems have "dict_literal kcs \<noteq> Inl ZeroDivisionError"
    by (intro Cons.IH) simp
  with c show ?case
    unfolding kc dict_literal.simps by (intro bind_no_zdiv) simp_all
qed

lemma row_display_no_zdiv:
  "list_all (\<lambda>kc. snd kc \<noteq> Inl ZeroDivisionError)
     (row_display header invoice item ex_rate currency fob_inr qty dbk_amt rodtep_amt
        fob_fc rodtep_pct dbk_pct description)"
  by (simp add: row_display_def bind_eq_Inl)

lemma make_row_no_zdiv: "make_row rt header invoice ex_rate currency item \<noteq> Inl ZeroDivisionError"
  unfolding make_row_def
  by (intro bind_no_zdiv dict_literal_no_zdiv row_display_no_zdiv)
     (simp_all add: float_truediv_gt0 percent_of_gt0 bind_no_zdiv)

lemma for_loop_no_zdiv:
  "(\<And>s x. body s x \<noteq> Inl ZeroDivisionError) \<Longrightarrow> for_loop body xs s \<noteq> Inl ZeroDivisionError"
  by (induction xs arbitrary: s) (simp_all add: bind_no_zdiv)

lemma invoice_body_no_zdiv: "invoice_body rt header flat_rows invoice \<noteq> Inl ZeroDivisionError"
  unfolding invoice_body_def Let_def
  by (intro bind_no_zdiv for_loop_no_zdiv) (simp_all add: make_row_no_zdiv)

lemma flatten_no_zdiv: "flatten_to_excel_rows rt d \<noteq> Inl ZeroDivisionError"
  unfolding flatten_to_excel_rows_def
  by (intro bind_no_zdiv for_loop_no_zdiv) (simp_all add: invoice_body_no_zdiv)

lemma float_is_zero_not_gt0: "float_is_zero x \<Longrightarrow> \<not> float_gt0 x"
  by (cases x) simp_all

lemma empty_currency_eval:
  "field_of (flatten_to_excel_rows plain_runtime empty_currency_doc) 0
     (asc ''FOB Value Declared by Us (S/B) in FC'') = Some (JInt 0) \<and>
   field_of (flatten_to_excel_rows plain_runtime empty_currency_doc) 0 (asc ''DBK %'')
     = Some (JStr (asc ''0.00'')) \<and>
   field_of (flatten_to_excel_rows plain_runtime empty_currency_doc) 0 (asc ''RoDTEP %'')
     = Some (JStr (asc ''0.00'')) \<and>
   field_of (flatten_to_excel_rows plain_runtime empty_currency_doc) 0 (asc ''SB NO.'')
     = Some (JStr []) \<and>
   field_of (flatten_to_excel_rows plain_runtime empty_currency_doc) 0 (asc ''Country'')
     = Some (JStr [])"
  by (simp add: empty_currency_doc_def field_of_def flatten_to_excel_rows_def invoice_body_def
        make_row_def row_display_def clean_number_def float_round2_def
        float_format_2f_def digits10.simps strip_def dict_get_def asc_def float_eval)

lemma flatten_no_invoices:
  "map_of kvs (asc ''invoices'') = None \<Longrightarrow> flatten_to_excel_rows rt (JDict kvs) = Inr []"
  by (simp add: flatten_to_excel_rows_def dict_get_def)

lemma list_all2_pick:
  "list_all2 P xs ys \<Longrightarrow> y \<in> set ys \<Longrightarrow> \<exists>x. x \<in> set xs \<and> P x y"
  by (induction xs ys rule: list_all2_induct) auto

lemma flatten_header_fields:
  assumes "flatten_to_excel_rows rt (JDict kvs) = Inr rows" and "r \<in> set rows"
  shows "\<exists>h. dict_get kvs (asc ''shipping_bill_header'') (JDict []) = JDict h \<and>
           map_of r (asc ''SB NO.'') = Some (dict_get h (asc ''SB NO.'') (JStr [])) \<and>
           map_of r (asc ''S/B Date'') = Some (dict_get h (asc ''S/B Date'') (JStr [])) \<and>
           map_of r (asc ''LEO Date'') = Some (dict_get h (asc ''LEO Date'') (JStr [])) \<and>
           map_of r (asc ''Customer Name'') = Some (dict_get h (asc ''CUSTOMER NAME'') (JStr [])) \<and>
           map_of r (asc ''Port Code'') = Some (dict_get h (asc ''PORT CODE'') (JStr [])) \<and>
           map_of r (asc ''Country'') = Some (dict_get h (asc ''COUNTRY'') (JStr []))"
proof -
  from flatten_rows [OF assms(1)] obtain header invs rss where
    header: "py_get (JDict kvs) (asc ''shipping_bill_header'') (JDict []) = Inr header" and
    rows: "rows = concat rss" and
    made: "list_all2
             (\<lambda>invoice rs. \<exists>its ex_rate currency.
                items_of invoice = Inr its \<and> ex_rate_of rt invoice = Inr ex_rate \<and>
                currency_of invoice = Inr currency \<and>
                list_all2 (\<lambda>item r. make_row rt header invoice ex_rate currency item = Inr r) its rs)
             invs rss"
    by blast
  from assms(2) rows obtain rs where rs: "rs \<in> set rss" and r: "r \<in> set rs"
    by auto
  from list_all2_pick [OF made rs] obtain invoice its ex_rate currency where
    "list_all2 (\<lambda>item r. make_row rt header invoice ex_rate currency item = Inr r) its rs"
    by blast
  from list_all2_pick [OF this r] obtain item where
    m: "make_row rt header invoice ex_rate currency item = Inr r"
    by blast
  from header have "header = dict_get kvs (asc ''shipping_bill_header'') (JDict [])"
    by simp
  with make_row_fields(6) [OF m] show ?thesis by simp
qed




lemma set_first_seen [simp]: "set (first_seen xs) = set xs"
  by (simp add: first_seen_def)

lemma map_of_tabulate: "c \<in> set cols \<Longrightarrow> map_of (map (\<lambda>c. (c, f c)) cols) c = Some (f c)"
  by (induction cols) auto

lemma cell_tabulate: "c \<in> set cols \<Longrightarrow> cell (map (\<lambda>c. (c, f c)) cols) c = f c"
  by (simp add: cell_def map_of_tabulate)












lemma length_py_range [simp]: "length (py_range a b) = b - a"
  by (simp only: py_range_def length_map length_upt)





section \<open>Claims\<close>

text \<open>
  C8.  \<open>clean_number\<close> maps the text \<open>U+20B9 1,234.50\<close> (the rupee sign before the
  number) to 1234.50, \<open>None\<close> to 0.0 and the text \<open>N/A\<close> to 0.0.  The rupee sign is no
  decimal digit of the interpreter's table.
\<close>

theorem clean_number_examples:
  assumes "rt_digit rt 8377 = None"
  shows "clean_number rt (JStr (8377 # asc ''1,234.50'')) = Inr (Finite False 2469 (- 1)) \<and>
         float_val (Finite False 2469 (- 1)) = Some (12345 / 10) \<and>
         clean_number rt JNull = Inr (Finite False 0 0) \<and>
         clean_number rt (JStr (asc ''N/A'')) = Inr (Finite False 0 0) \<and>
         float_val (Finite False 0 0) = Some 0"
  using assms
  by (simp add: clean_number_def re_sub_non_numeric_def digit_val_def float_of_clean_str_def
        asc_def float_eval)

theorem clean_number_examples_witness:
  "rt_digit plain_runtime 8377 = None \<and>
   clean_number plain_runtime (JStr (8377 # asc ''1,234.50'')) = Inr (Finite False 2469 (- 1)) \<and>
   clean_number plain_runtime JNull = Inr (Finite False 0 0) \<and>
   clean_number plain_runtime (JStr (asc ''N/A'')) = Inr (Finite False 0 0)"
  using clean_number_examples [of plain_runtime] by (simp add: plain_runtime_def)

text \<open>
  C1 (as amended).  An invoice with \<open>k\<close> items gives \<open>k\<close> rows, so an invoice whose
  items are empty gives no row (\<open>item_count\<close> is computed and never used), and the
  number of rows is the sum over the invoices of the number of their items.
\<close>

theorem flatten_row_count:
  assumes "flatten_to_excel_rows rt d = Inr rows"
  shows "\<exists>invs itemss rss.
           invoices_of d = Inr invs \<and> map items_of invs = map Inr itemss \<and>
           rows = concat rss \<and> list_all2 (\<lambda>its rs. length rs = length its) itemss rss \<and>
           length rows = sum_list (map length itemss)"
proof -
  from assms obtain header invs rss where
    invs: "invoices_of d = Inr invs" and
    bodies: "list_all2 (\<lambda>invoice rs. invoice_body rt header [] invoice = Inr rs) invs rss" and
    rows: "rows = concat rss"
    unfolding flatten_Inr by blast
  from bodies have
    "list_all2 (\<lambda>invoice rs. \<exists>its. items_of invoice = Inr its \<and> length rs = length its) invs rss"
    by (rule list_all2_mono) (rule invoice_rows_length)
  then have "\<exists>itemss. list_all2 (\<lambda>invoice its. items_of invoice = Inr its) invs itemss \<and>
                    list_all2 (\<lambda>its rs. length rs = length its) itemss rss"
    by (rule list_all2_ex_split
          [where P = "\<lambda>invoice its. items_of invoice = Inr its"
             and Q = "\<lambda>its rs. length rs = length its"])
  then obtain itemss where
    items: "list_all2 (\<lambda>invoice its. items_of invoice = Inr its) invs itemss" and
    lens: "list_all2 (\<lambda>its rs. length rs = length its) itemss rss"
    by blast
  from items have m: "map items_of invs = map Inr itemss"
    by (rule list_all2_eq_map)
  have "length rows = sum_list (map length rss)"
    by (simp add: rows length_concat)
  also have "\<dots> = sum_list (map length itemss)"
    using lens by (rule sum_list_length_all2)
  finally have "length rows = sum_list (map length itemss)" .
  with invs m rows lens show ?thesis by blast
qed

text \<open>
  The claim as written fails: one invoice with an empty list of items gives no row, where
  \<open>max(1, 0)\<close> rows are claimed.
\<close>

theorem flatten_empty_items_counterexample:
  "flatten_to_excel_rows plain_runtime no_items_doc = Inr [] \<and>
   invoices_of no_items_doc = Inr [JDict [(asc ''items'', JList [])]] \<and>
   items_of (JDict [(asc ''items'', JList [])]) = Inr [] \<and>
   length ([] :: row list) \<noteq> max 1 (length ([] :: json list))"
  by (simp add: no_items_doc_def flatten_to_excel_rows_def invoice_body_def invoices_of_def
        items_of_def clean_number_def dict_get_def asc_def)

theorem flatten_row_count_witness:
  "flatten_to_excel_rows plain_runtime (scenario_1 []) = Inr [scenario_1_row []] \<and>
   (\<exists>invs itemss rss.
      invoices_of (scenario_1 []) = Inr invs \<and> map items_of invs = map Inr itemss \<and>
      [scenario_1_row []] = concat rss \<and> list_all2 (\<lambda>its rs. length rs = length its) itemss rss \<and>
      length [scenario_1_row []] = sum_list (map length itemss))"
  using flatten_row_count [OF scenario_1_eval [of plain_runtime "[]"]] scenario_1_eval by simp

text \<open>
  C5.  One document with one invoice (rate 83.0, currency USD) holding one item (FOB
  830000, quantity 100, drawback 8300, RoDTEP 4150) gives exactly one row, with the FOB
  value in foreign currency 10000.00, \<open>DBK %\<close> the text \<open>1.00\<close>, \<open>RoDTEP %\<close> the text
  \<open>0.50\<close> and \<open>RoDTEP Y/N\<close> the text \<open>Yes\<close>.
\<close>

theorem flatten_scenario_1:
  "\<exists>r. flatten_to_excel_rows rt (scenario_1 hdr) = Inr [r] \<and>
       map_of r (asc ''FOB Value Declared by Us (S/B) in FC'') = Some (JFloat (Finite False 625 4)) \<and>
       float_val (Finite False 625 4) = Some 10000 \<and>
       map_of r (asc ''DBK %'') = Some (JStr (asc ''1.00'')) \<and>
       map_of r (asc ''RoDTEP %'') = Some (JStr (asc ''0.50'')) \<and>
       map_of r (asc ''RoDTEP Y/N'') = Some (JStr (asc ''Yes''))"
  by (simp add: scenario_1_eval) (simp add: scenario_1_row_def asc_def)

text \<open>
  C3 (as amended).  For every invoice, the \<open>Currency of Export\<close> of each of its rows is
  the value the invoice holds under \<open>Currency of export\<close>, whatever that value is, and
  is \<open>USD\<close> when the invoice has no such key.  An empty value is emitted as it is.
\<close>

theorem flatten_currency:
  assumes "flatten_to_excel_rows rt d = Inr rows"
  shows "\<exists>invs rss.
           invoices_of d = Inr invs \<and> rows = concat rss \<and>
           list_all2
             (\<lambda>invoice rs. \<exists>kvs. invoice = JDict kvs \<and>
                (\<forall>r\<in>set rs. map_of r (asc ''Currency of Export'') =
                   Some (case map_of kvs (asc ''Currency of export'') of
                           None \<Rightarrow> JStr (asc ''USD'') | Some v \<Rightarrow> v)))
             invs rss"
proof -
  from assms obtain header invs rss where
    invs: "invoices_of d = Inr invs" and
    bodies: "list_all2 (\<lambda>invoice rs. invoice_body rt header [] invoice = Inr rs) invs rss" and
    rows: "rows = concat rss"
    unfolding flatten_Inr by blast
  have "\<exists>kvs. invoice = JDict kvs \<and>
          (\<forall>r\<in>set rs. map_of r (asc ''Currency of Export'') =
             Some (case map_of kvs (asc ''Currency of export'') of
                     None \<Rightarrow> JStr (asc ''USD'') | Some v \<Rightarrow> v))"
    if "invoice_body rt header [] invoice = Inr rs" for invoice rs
  proof -
    from invoice_rows_fields [OF that] obtain its ex_rate currency where
      cur: "currency_of invoice = Inr currency" and
      made: "list_all2 (\<lambda>item r. make_row rt header invoice ex_rate currency item = Inr r) its rs"
      by blast
    from currency_of_Inr [OF cur] obtain kvs where
      kvs: "invoice = JDict kvs" and
      c: "currency = dict_get kvs (asc ''Currency of export'') (JStr (asc ''USD''))"
      by blast
    have "map_of r (asc ''Currency of Export'') = Some currency" if "r \<in> set rs" for r
    proof -
      from made that obtain item where "make_row rt header invoice ex_rate currency item = Inr r"
        by (auto simp: list_all2_conv_all_nth in_set_conv_nth)
      then show ?thesis by (rule make_row_fields(2))
    qed
    with kvs c show ?thesis by (simp add: dict_get_def)
  qed
  with bodies have "list_all2
             (\<lambda>invoice rs. \<exists>kvs. invoice = JDict kvs \<and>
                (\<forall>r\<in>set rs. map_of r (asc ''Currency of Export'') =
                   Some (case map_of kvs (asc ''Currency of export'') of
                           None \<Rightarrow> JStr (asc ''USD'') | Some v \<Rightarrow> v)))
             invs rss"
    by (rule list_all2_mono)
  with invs rows show ?thesis by blast
qed

text \<open>
  The claim as written fails: an invoice whose currency is the empty text gives rows whose
  \<open>Currency of Export\<close> is the empty text, not \<open>USD\<close>.
\<close>

theorem flatten_empty_currency_counterexample:
  "field_of (flatten_to_excel_rows plain_runtime empty_currency_doc) 0 (asc ''Currency of Export'')
     = Some (JStr []) \<and>
   JStr [] \<noteq> JStr (asc ''USD'')"
  by (simp add: empty_currency_doc_def field_of_def flatten_to_excel_rows_def invoice_body_def
        make_row_def row_display_def clean_number_def float_round2_def
        float_format_2f_def digits10.simps strip_def dict_get_def asc_def float_eval)

theorem flatten_currency_witness:
  "flatten_to_excel_rows plain_runtime (scenario_1 []) = Inr [scenario_1_row []] \<and>
   (\<exists>invs rss.
      invoices_of (scenario_1 []) = Inr invs \<and> [scenario_1_row []] = concat rss \<and>
      list_all2
        (\<lambda>invoice rs. \<exists>kvs. invoice = JDict kvs \<and>
           (\<forall>r\<in>set rs. map_of r (asc ''Currency of Export'') =
              Some (case map_of kvs (asc ''Currency of export'') of
                      None \<Rightarrow> JStr (asc ''USD'') | Some v \<Rightarrow> v)))
        invs rss)"
  using flatten_currency [OF scenario_1_eval [of plain_runtime "[]"]] scenario_1_eval by simp

text \<open>
  C9.  In every row, \<open>FOB Value as per LEO Ex. Rate in INR\<close> and \<open>FOB Value as per SB in
  INR\<close> hold the same value, the item's FOB value in INR rounded to two decimals, and
  \<open>LEO Date Exchange Rate (in FC)\<close> and \<open>Custom Exchange Rate (in FC)\<close> hold the same
  value, the exchange rate of the invoice.
\<close>

theorem flatten_leo_fields:
  assumes "flatten_to_excel_rows rt d = Inr rows"
  shows "\<exists>invs rss.
           invoices_of d = Inr invs \<and> rows = concat rss \<and>
           list_all2
             (\<lambda>invoice rs. \<exists>its ex_rate.
                items_of invoice = Inr its \<and> ex_rate_of rt invoice = Inr ex_rate \<and>
                list_all2
                  (\<lambda>item r. \<exists>fob_inr x.
                     fob_inr_of rt item = Inr fob_inr \<and> float_round2 fob_inr = Inr x \<and>
                     map_of r (asc ''FOB Value as per SB in INR'') = Some (JFloat x) \<and>
                     map_of r (asc ''FOB Value as per LEO Ex. Rate in INR'') = Some (JFloat x) \<and>
                     map_of r (asc ''Custom Exchange Rate (in FC)'') = Some (JFloat ex_rate) \<and>
                     map_of r (asc ''LEO Date Exchange Rate (in FC)'') = Some (JFloat ex_rate))
                  its rs)
             invs rss"
proof -
  from flatten_rows [OF assms] obtain header invs rss where
    invs: "invoices_of d = Inr invs" and rows: "rows = concat rss" and
    made: "list_all2
             (\<lambda>invoice rs. \<exists>its ex_rate currency.
                items_of invoice = Inr its \<and> ex_rate_of rt invoice = Inr ex_rate \<and>
                currency_of invoice = Inr currency \<and>
                list_all2 (\<lambda>item r. make_row rt header invoice ex_rate currency item = Inr r) its rs)
             invs rss"
    by blast
  have row: "\<exists>fob_inr x.
                fob_inr_of rt item = Inr fob_inr \<and> float_round2 fob_inr = Inr x \<and>
                map_of r (asc ''FOB Value as per SB in INR'') = Some (JFloat x) \<and>
                map_of r (asc ''FOB Value as per LEO Ex. Rate in INR'') = Some (JFloat x) \<and>
                map_of r (asc ''Custom Exchange Rate (in FC)'') = Some (JFloat ex_rate) \<and>
                map_of r (asc ''LEO Date Exchange Rate (in FC)'') = Some (JFloat ex_rate)"
    if m: "make_row rt header invoice ex_rate currency item = Inr r"
    for invoice ex_rate currency item r
    using make_row_fields(5) [OF m] make_row_fields(3) [OF m] make_row_fields(4) [OF m]
    by blast
  from made have "list_all2
             (\<lambda>invoice rs. \<exists>its ex_rate.
                items_of invoice = Inr its \<and> ex_rate_of rt invoice = Inr ex_rate \<and>
                list_all2
                  (\<lambda>item r. \<exists>fob_inr x.
                     fob_inr_of rt item = Inr fob_inr \<and> float_round2 fob_inr = Inr x \<and>
                     map_of r (asc ''FOB Value as per SB in INR'') = Some (JFloat x) \<and>
                     map_of r (asc ''FOB Value as per LEO Ex. Rate in INR'') = Some (JFloat x) \<and>
                     map_of r (asc ''Custom Exchange Rate (in FC)'') = Some (JFloat ex_rate) \<and>
                     map_of r (asc ''LEO Date Exchange Rate (in FC)'') = Some (JFloat ex_rate))
                  its rs)
             invs rss"
  proof (rule list_all2_mono)
    fix invoice rs
    assume "\<exists>its ex_rate currency.
                items_of invoice = Inr its \<and> ex_rate_of rt invoice = Inr ex_rate \<and>
                currency_of invoice = Inr currency \<and>
                list_all2 (\<lambda>item r. make_row rt header invoice ex_rate currency item = Inr r) its rs"
    then obtain its ex_rate currency where
      its: "items_of invoice = Inr its" and rate: "ex_rate_of rt invoice = Inr ex_rate" and
      l: "list_all2 (\<lambda>item r. make_row rt header invoice ex_rate currency item = Inr r) its rs"
      by blast
    from l have "list_all2
                  (\<lambda>item r. \<exists>fob_inr x.
                     fob_inr_of rt item = Inr fob_inr \<and> float_round2 fob_inr = Inr x \<and>
                     map_of r (asc ''FOB Value as per SB in INR'') = Some (JFloat x) \<and>
                     map_of r (asc ''FOB Value as per LEO Ex. Rate in INR'') = Some (JFloat x) \<and>
                     map_of r (asc ''Custom Exchange Rate (in FC)'') = Some (JFloat ex_rate) \<and>
                     map_of r (asc ''LEO Date Exchange Rate (in FC)'') = Some (JFloat ex_rate))
                  its rs"
      by (rule list_all2_mono) (rule row)
    with its rate show "\<exists>its ex_rate.
                items_of invoice = Inr its \<and> ex_rate_of rt invoice = Inr ex_rate \<and>
                list_all2
                  (\<lambda>item r. \<exists>fob_inr x.
                     fob_inr_of rt item = Inr fob_inr \<and> float_round2 fob_inr = Inr x \<and>
                     map_of r (asc ''FOB Value as per SB in INR'') = Some (JFloat x) \<and>
                     map_of r (asc ''FOB Value as per LEO Ex. Rate in INR'') = Some (JFloat x) \<and>
                     map_of r (asc ''Custom Exchange Rate (in FC)'') = Some (JFloat ex_rate) \<and>
                     map_of r (asc ''LEO Date Exchange Rate (in FC)'') = Some (JFloat ex_rate))
                  its rs"
      by blast
  qed
  with invs rows show ?thesis by blast
qed

theorem flatten_leo_fields_witness:
  "flatten_to_excel_rows plain_runtime (scenario_1 []) = Inr [scenario_1_row []] \<and>
   (\<exists>invs rss.
      invoices_of (scenario_1 []) = Inr invs \<and> [scenario_1_row []] = concat rss \<and>
      list_all2
        (\<lambda>invoice rs. \<exists>its ex_rate.
           items_of invoice = Inr its \<and> ex_rate_of plain_runtime invoice = Inr ex_rate \<and>
           list_all2
             (\<lambda>item r. \<exists>fob_inr x.
                fob_inr_of plain_runtime item = Inr fob_inr \<and> float_round2 fob_inr = Inr x \<and>
                map_of r (asc ''FOB Value as per SB in INR'') = Some (JFloat x) \<and>
                map_of r (asc ''FOB Value as per LEO Ex. Rate in INR'') = Some (JFloat x) \<and>
                map_of r (asc ''Custom Exchange Rate (in FC)'') = Some (JFloat ex_rate) \<and>
                map_of r (asc ''LEO Date Exchange Rate (in FC)'') = Some (JFloat ex_rate))
             its rs)
        invs rss)"
  using flatten_leo_fields [OF scenario_1_eval [of plain_runtime "[]"]] scenario_1_eval by simp

text \<open>
  C4.  No division by zero is ever raised.  In every row, the FOB value in foreign
  currency is 0 when the exchange rate of the invoice is 0, whatever the FOB value in INR
  is, and \<open>DBK %\<close> and \<open>RoDTEP %\<close> are the text \<open>0.00\<close> when the FOB value in INR of the
  item is 0, whatever the two amounts are.
\<close>

theorem flatten_division_safe:
  "flatten_to_excel_rows rt d \<noteq> Inl ZeroDivisionError \<and>
   (\<forall>rows. flatten_to_excel_rows rt d = Inr rows \<longrightarrow>
      (\<exists>invs rss.
         invoices_of d = Inr invs \<and> rows = concat rss \<and>
         list_all2
           (\<lambda>invoice rs. \<exists>its ex_rate.
              items_of invoice = Inr its \<and> ex_rate_of rt invoice = Inr ex_rate \<and>
              list_all2
                (\<lambda>item r. \<exists>fob_inr.
                   fob_inr_of rt item = Inr fob_inr \<and>
                   (float_is_zero ex_rate \<longrightarrow>
                      map_of r (asc ''FOB Value Declared by Us (S/B) in FC'') = Some (JInt 0)) \<and>
                   (float_is_zero fob_inr \<longrightarrow>
                      map_of r (asc ''DBK %'') = Some (JStr (asc ''0.00'')) \<and>
                      map_of r (asc ''RoDTEP %'') = Some (JStr (asc ''0.00''))))
                its rs)
           invs rss))"
proof (intro conjI allI impI)
  show "flatten_to_excel_rows rt d \<noteq> Inl ZeroDivisionError"
    by (rule flatten_no_zdiv)
next
  fix rows
  assume "flatten_to_excel_rows rt d = Inr rows"
  from flatten_rows [OF this] obtain header invs rss where
    invs: "invoices_of d = Inr invs" and rows: "rows = concat rss" and
    made: "list_all2
             (\<lambda>invoice rs. \<exists>its ex_rate currency.
                items_of invoice = Inr its \<and> ex_rate_of rt invoice = Inr ex_rate \<and>
                currency_of invoice = Inr currency \<and>
                list_all2 (\<lambda>item r. make_row rt header invoice ex_rate currency item = Inr r) its rs)
             invs rss"
    by blast
  have row: "\<exists>fob_inr.
                fob_inr_of rt item = Inr fob_inr \<and>
                (float_is_zero ex_rate \<longrightarrow>
                   map_of r (asc ''FOB Value Declared by Us (S/B) in FC'') = Some (JInt 0)) \<and>
                (float_is_zero fob_inr \<longrightarrow>
                   map_of r (asc ''DBK %'') = Some (JStr (asc ''0.00'')) \<and>
                   map_of r (asc ''RoDTEP %'') = Some (JStr (asc ''0.00'')))"
    if m: "make_row rt header invoice ex_rate currency item = Inr r"
    for invoice ex_rate currency item r
    using make_row_fields(5) [OF m] float_is_zero_not_gt0 by blast
  from made have "list_all2
           (\<lambda>invoice rs. \<exists>its ex_rate.
              items_of invoice = Inr its \<and> ex_rate_of rt invoice = Inr ex_rate \<and>
              list_all2
                (\<lambda>item r. \<exists>fob_inr.
                   fob_inr_of rt item = Inr fob_inr \<and>
                   (float_is_zero ex_rate \<longrightarrow>
                      map_of r (asc ''FOB Value Declared by Us (S/B) in FC'') = Some (JInt 0)) \<and>
                   (float_is_zero fob_inr \<longrightarrow>
                      map_of r (asc ''DBK %'') = Some (JStr (asc ''0.00'')) \<and>
                      map_of r (asc ''RoDTEP %'') = Some (JStr (asc ''0.00''))))
                its rs)
           invs rss"
  proof (rule list_all2_mono)
    fix invoice rs
    assume "\<exists>its ex_rate currency.
                items_of invoice = Inr its \<and> ex_rate_of rt invoice = Inr ex_rate \<and>
                currency_of invoice = Inr currency \<and>
                list_all2 (\<lambda>item r. make_row rt header invoice ex_rate currency item = Inr r) its rs"
    then obtain its ex_rate currency where
      its: "items_of invoice = Inr its" and rate: "ex_rate_of rt invoice = Inr ex_rate" and
      l: "list_all2 (\<lambda>item r. make_row rt header invoice ex_rate currency item = Inr r) its rs"
      by blast
    from l have "list_all2
                (\<lambda>item r. \<exists>fob_inr.
                   fob_inr_of rt item = Inr fob_inr \<and>
                   (float_is_zero ex_rate \<longrightarrow>
                      map_of r (asc ''FOB Value Declared by Us (S/B) in FC'') = Some (JInt 0)) \<and>
                   (float_is_zero fob_inr \<longrightarrow>
                      map_of r (asc ''DBK %'') = Some (JStr (asc ''0.00'')) \<and>
                      map_of r (asc ''RoDTEP %'') = Some (JStr (asc ''0.00''))))
                its rs"
      by (rule list_all2_mono) (rule row)
    with its rate show "\<exists>its ex_rate.
              items_of invoice = Inr its \<and> ex_rate_of rt invoice = Inr ex_rate \<and>
              list_all2
                (\<lambda>item r. \<exists>fob_inr.
                   fob_inr_of rt item = Inr fob_inr \<and>
                   (float_is_zero ex_rate \<longrightarrow>
                      map_of r (asc ''FOB Value Declared by Us (S/B) in FC'') = Some (JInt 0)) \<and>
                   (float_is_zero fob_inr \<longrightarrow>
                      map_of r (asc ''DBK %'') = Some (JStr (asc ''0.00'')) \<and>
                      map_of r (asc ''RoDTEP %'') = Some (JStr (asc ''0.00''))))
                its rs"
      by blast
  qed
  with invs rows show "\<exists>invs rss.
         invoices_of d = Inr invs \<and> rows = concat rss \<and>
         list_all2
           (\<lambda>invoice rs. \<exists>its ex_rate.
              items_of invoice = Inr its \<and> ex_rate_of rt invoice = Inr ex_rate \<and>
              list_all2
                (\<lambda>item r. \<exists>fob_inr.
                   fob_inr_of rt item = Inr fob_inr \<and>
                   (float_is_zero ex_rate \<longrightarrow>
                      map_of r (asc ''FOB Value Declared by Us (S/B) in FC'') = Some (JInt 0)) \<and>
                   (float_is_zero fob_inr \<longrightarrow>
                      map_of r (asc ''DBK %'') = Some (JStr (asc ''0.00'')) \<and>
                      map_of r (asc ''RoDTEP %'') = Some (JStr (asc ''0.00''))))
                its rs)
           invs rss"
    by blast
qed

theorem flatten_division_safe_witness:
  "flatten_to_excel_rows plain_runtime empty_currency_doc \<noteq> Inl ZeroDivisionError \<and>
   ex_rate_of plain_runtime
     (JDict [(asc ''Currency of export'', JStr []), (asc ''items'', JList [JDict []])])
     = Inr (Finite False 0 0) \<and>
   fob_inr_of plain_runtime (JDict []) = Inr (Finite False 0 0) \<and>
   float_is_zero (Finite False 0 0) \<and>
   field_of (flatten_to_excel_rows plain_runtime empty_currency_doc) 0
     (asc ''FOB Value Declared by Us (S/B) in FC'') = Some (JInt 0) \<and>
   field_of (flatten_to_excel_rows plain_runtime empty_currency_doc) 0 (asc ''DBK %'')
     = Some (JStr (asc ''0.00'')) \<and>
   field_of (flatten_to_excel_rows plain_runtime empty_currency_doc) 0 (asc ''RoDTEP %'')
     = Some (JStr (asc ''0.00''))"
  using flatten_division_safe [of plain_runtime empty_currency_doc] empty_currency_eval
  by (simp add: ex_rate_of_def fob_inr_of_def clean_number_def dict_get_def asc_def)

text \<open>
  C10 (as amended).  On a dict without the key \<open>invoices\<close> the function returns the empty
  list.  In every row it returns for a dict, a header field is the empty text when the
  dict has no key \<open>shipping_bill_header\<close>, and when the header is a dict that lacks the
  key of that field.  The function is not total on dicts: it raises on values of the
  wrong shape.
\<close>

theorem flatten_missing_keys:
  "(map_of kvs (asc ''invoices'') = None \<longrightarrow> flatten_to_excel_rows rt (JDict kvs) = Inr []) \<and>
   (\<forall>rows. flatten_to_excel_rows rt (JDict kvs) = Inr rows \<longrightarrow>
      (\<forall>r\<in>set rows.
         (map_of kvs (asc ''shipping_bill_header'') = None \<longrightarrow>
            map_of r (asc ''SB NO.'') = Some (JStr []) \<and>
            map_of r (asc ''S/B Date'') = Some (JStr []) \<and>
            map_of r (asc ''LEO Date'') = Some (JStr []) \<and>
            map_of r (asc ''Customer Name'') = Some (JStr []) \<and>
            map_of r (asc ''Port Code'') = Some (JStr []) \<and>
            map_of r (asc ''Country'') = Some (JStr [])) \<and>
         (\<forall>h. map_of kvs (asc ''shipping_bill_header'') = Some (JDict h) \<longrightarrow>
            (map_of h (asc ''SB NO.'') = None \<longrightarrow> map_of r (asc ''SB NO.'') = Some (JStr [])) \<and>
            (map_of h (asc ''S/B Date'') = None \<longrightarrow> map_of r (asc ''S/B Date'') = Some (JStr [])) \<and>
            (map_of h (asc ''LEO Date'') = None \<longrightarrow> map_of r (asc ''LEO Date'') = Some (JStr [])) \<and>
            (map_of h (asc ''CUSTOMER NAME'') = None \<longrightarrow>
               map_of r (asc ''Customer Name'') = Some (JStr [])) \<and>
            (map_of h (asc ''PORT CODE'') = None \<longrightarrow> map_of r (asc ''Port Code'') = Some (JStr [])) \<and>
            (map_of h (asc ''COUNTRY'') = None \<longrightarrow> map_of r (asc ''Country'') = Some (JStr [])))))"
proof (intro conjI allI impI ballI)
  assume "map_of kvs (asc ''invoices'') = None"
  then show "flatten_to_excel_rows rt (JDict kvs) = Inr []"
    by (rule flatten_no_invoices)
next
  fix rows r
  assume f: "flatten_to_excel_rows rt (JDict kvs) = Inr rows" and r: "r \<in> set rows"
    and none: "map_of kvs (asc ''shipping_bill_header'') = None"
  from flatten_header_fields [OF f r] none
  show "map_of r (asc ''SB NO.'') = Some (JStr [])"
    and "map_of r (asc ''S/B Date'') = Some (JStr [])"
    and "map_of r (asc ''LEO Date'') = Some (JStr [])"
    and "map_of r (asc ''Customer Name'') = Some (JStr [])"
    and "map_of r (asc ''Port Code'') = Some (JStr [])"
    and "map_of r (asc ''Country'') = Some (JStr [])"
    by (auto simp: dict_get_def)
next
  fix rows r h
  assume f: "flatten_to_excel_rows rt (JDict kvs) = Inr rows" and r: "r \<in> set rows"
    and h: "map_of kvs (asc ''shipping_bill_header'') = Some (JDict h)"
  from flatten_header_fields [OF f r] h
  have *: "map_of r (asc ''SB NO.'') = Some (dict_get h (asc ''SB NO.'') (JStr []))"
    "map_of r (asc ''S/B Date'') = Some (dict_get h (asc ''S/B Date'') (JStr []))"
    "map_of r (asc ''LEO Date'') = Some (dict_get h (asc ''LEO Date'') (JStr []))"
    "map_of r (asc ''Customer Name'') = Some (dict_get h (asc ''CUSTOMER NAME'') (JStr []))"
    "map_of r (asc ''Port Code'') = Some (dict_get h (asc ''PORT CODE'') (JStr []))"
    "map_of r (asc ''Country'') = Some (dict_get h (asc ''COUNTRY'') (JStr []))"
    by (auto simp: dict_get_def)
  {
    assume "map_of h (asc ''SB NO.'') = None"
    with * show "map_of r (asc ''SB NO.'') = Some (JStr [])" by (simp add: dict_get_def)
  }
  {
    assume "map_of h (asc ''S/B Date'') = None"
    with * show "map_of r (asc ''S/B Date'') = Some (JStr [])" by (simp add: dict_get_def)
  }
  {
    assume "map_of h (asc ''LEO Date'') = None"
    with * show "map_of r (asc ''LEO Date'') = Some (JStr [])" by (simp add: dict_get_def)
  }
  {
    assume "map_of h (asc ''CUSTOMER NAME'') = None"
    with * show "map_of r (asc ''Customer Name'') = Some (JStr [])" by (simp add: dict_get_def)
  }
  {
    assume "map_of h (asc ''PORT CODE'') = None"
    with * show "map_of r (asc ''Port Code'') = Some (JStr [])" by (simp add: dict_get_def)
  }
  {
    assume "map_of h (asc ''COUNTRY'') = None"
    with * show "map_of r (asc ''Country'') = Some (JStr [])" by (simp add: dict_get_def)
  }
qed

text \<open>The claim as written fails: on the dict \<open>{"invoices": null}\<close> the loop raises.\<close>

theorem flatten_null_invoices_counterexample:
  "flatten_to_excel_rows plain_runtime null_invoices_doc = Inl TypeError"
  by (simp add: null_invoices_doc_def flatten_to_excel_rows_def dict_get_def asc_def)

theorem flatten_missing_keys_witness:
  "map_of ([] :: (ustring \<times> json) list) (asc ''invoices'') = None \<and>
   flatten_to_excel_rows plain_runtime (JDict []) = Inr [] \<and>
   field_of (flatten_to_excel_rows plain_runtime empty_currency_doc) 0 (asc ''SB NO.'')
     = Some (JStr []) \<and>
   field_of (flatten_to_excel_rows plain_runtime empty_currency_doc) 0 (asc ''Country'')
     = Some (JStr [])"
  using flatten_missing_keys [of "[]" plain_runtime] empty_currency_eval by simp




text \<open>
  C7 (as amended).  The accumulated rows are projected to the canonical list, which has
  27 columns: the columns kept are the canonical columns that occur as a key of some
  row, in canonical order, so a key outside the list is dropped and a canonical column
  absent from the data is not created; every row keeps its value in each column kept.
\<close>

theorem project_columns_spec:
  "\<exists>df. project_columns all_data = Inr df \<and>
        length FINAL_COLUMNS = 27 \<and>
        df_columns df = filter (\<lambda>c. \<exists>r\<in>set all_data. c \<in> fst ` set r) FINAL_COLUMNS \<and>
        length (df_rows df) = length all_data \<and>
        (\<forall>i<length all_data.
           map fst (df_rows df ! i) = df_columns df \<and>
           (\<forall>c\<in>set (df_columns df). map_of (df_rows df ! i) c = Some (cell (all_data ! i) c)))"
proof -
  let ?cols = "first_seen (concat (map (map fst) all_data))"
  let ?safe = "filter (\<lambda>c. c \<in> set ?cols) FINAL_COLUMNS"
  let ?df = "\<lparr>df_columns = ?safe,
              df_rows = map (\<lambda>r. map (\<lambda>c. (c, cell r c)) ?safe)
                          (map (\<lambda>r. map (\<lambda>c. (c, cell r c)) ?cols) all_data)\<rparr>"
  have p: "project_columns all_data = Inr ?df"
    by (auto simp: project_columns_def DataFrame_def df_getitem_def Let_def)
  have cols: "set ?cols = {c. \<exists>r\<in>set all_data. c \<in> fst ` set r}"
    by auto
  have c: "df_columns ?df = filter (\<lambda>c. \<exists>r\<in>set all_data. c \<in> fst ` set r) FINAL_COLUMNS"
    by (simp add: cols)
  have r: "map fst (df_rows ?df ! i) = df_columns ?df \<and>
           (\<forall>c\<in>set (df_columns ?df). map_of (df_rows ?df ! i) c = Some (cell (all_data ! i) c))"
    if "i < length all_data" for i
    using that by (auto simp: comp_def map_of_tabulate cell_tabulate simp del: set_concat)
  have "length FINAL_COLUMNS = 27"
    by (simp add: FINAL_COLUMNS_def)
  with p c r show ?thesis
    by (intro exI [of _ ?df]) simp
qed


theorem project_columns_spec_witness:
  "project_columns two_key_records =
     Inr \<lparr>df_columns = [asc ''Unit''], df_rows = [[(asc ''Unit'', JStr (asc ''KGS''))]]\<rparr>"
  using project_columns_spec [of two_key_records]
  by (simp add: two_key_records_def project_columns_def DataFrame_def df_getitem_def
        first_seen_def FINAL_COLUMNS_def cell_def asc_def)

text \<open>The claim as written fails: the canonical list has 27 columns, not 26.\<close>

theorem final_columns_count_counterexample:
  "length FINAL_COLUMNS = 27 \<and> length FINAL_COLUMNS \<noteq> 26"
  by (simp add: FINAL_COLUMNS_def)



end
